theory Spec2Isabelle
  imports Main
begin

section \<open>The REST controllers' response helpers (server/adkrest/controllers/handlers.go)\<close>

text \<open>
  The file holds a response-writer decorator (\<open>trackingResponseWriter\<close>), a JSON
  response encoder (\<open>EncodeJSONResponse\<close>) and a wrapper that turns a handler
  returning an error into a plain handler (\<open>NewErrorHandler\<close>). All three act on
  Go's \<open>http.ResponseWriter\<close> interface, so the embedding starts with that
  interface: a writer that records every call it receives.
\<close>

subsection \<open>Errors\<close>

text \<open>
  Modelled from the spec: the status-carrying error type \<open>statusError\<close> is declared
  in another file of the package. The spec gives it a human-readable message
  (\<open>Error()\<close>) and an integer HTTP status code (\<open>Status()\<close>); every other error
  value only has its message. The type assertion \<open>err.(statusError)\<close> of the
  source is the case distinction on this datatype.
\<close>

datatype error = GenericError string | StatusError string int

fun Error_msg :: "error \<Rightarrow> string" where
  "Error_msg (GenericError m) = m"
| "Error_msg (StatusError m c) = m"

subsection \<open>The underlying response writer\<close>

text \<open>
  \<open>http.ResponseWriter\<close> has three methods: \<open>Header()\<close> returns the mutable header
  map, \<open>WriteHeader(statusCode)\<close> sends the status, \<open>Write(data)\<close> sends body bytes
  and returns \<open>(n, err)\<close>. The underlying writer is any implementation of it, so the
  model keeps the header map, the list of \<open>WriteHeader\<close> and \<open>Write\<close> calls that
  reached it (in order), beside it the header map as each of these calls found it
  (what a server would put on the wire with that call), and a function that says
  what each \<open>Write\<close> returns, given the calls received so far and the data.
\<close>

type_synonym header = "string \<Rightarrow> string list option"

datatype rw_call = WriteHeaderCall int | WriteCall string

record response_writer =
  rw_header :: header
  rw_calls :: "rw_call list"
  rw_header_at :: "header list"
  rw_on_write :: "rw_call list \<Rightarrow> string \<Rightarrow> int \<times> error option"

definition Header_Set :: "string \<Rightarrow> string \<Rightarrow> header \<Rightarrow> header" where
  "Header_Set k v h = h(k \<mapsto> [v])"

definition Header_Del :: "string \<Rightarrow> header \<Rightarrow> header" where
  "Header_Del k h = h(k := None)"

definition rw_Header :: "response_writer \<Rightarrow> (header \<Rightarrow> header) \<Rightarrow> response_writer" where
  "rw_Header w f = w\<lparr>rw_header := f (rw_header w)\<rparr>"

definition rw_WriteHeader :: "response_writer \<Rightarrow> int \<Rightarrow> response_writer" where
  "rw_WriteHeader w statusCode =
     w\<lparr>rw_calls := rw_calls w @ [WriteHeaderCall statusCode],
       rw_header_at := rw_header_at w @ [rw_header w]\<rparr>"

definition rw_Write :: "response_writer \<Rightarrow> string \<Rightarrow> (int \<times> error option) \<times> response_writer" where
  "rw_Write w data =
     (rw_on_write w (rw_calls w) data,
      w\<lparr>rw_calls := rw_calls w @ [WriteCall data],
        rw_header_at := rw_header_at w @ [rw_header w]\<rparr>)"

text \<open>The status codes and the body chunks that reached a writer.\<close>

fun is_WriteHeaderCall :: "rw_call \<Rightarrow> bool" where
  "is_WriteHeaderCall (WriteHeaderCall c) = True"
| "is_WriteHeaderCall (WriteCall d) = False"

definition status_calls :: "rw_call list \<Rightarrow> rw_call list" where
  "status_calls cs = filter is_WriteHeaderCall cs"

subsection \<open>The process-wide logger\<close>

text \<open>
  \<open>log.Printf\<close> appends a line to the standard logger. The three messages of the
  file are kept as constructors carrying the formatted arguments.
\<close>

datatype log_entry =
    SkippedDuplicateWriteHeader int
  | EncodeFailedAfterHeaders error
  | ErrorAfterResponseStarted error

type_synonym logger = "log_entry list"

subsection \<open>trackingResponseWriter\<close>

record trackingResponseWriter =
  ResponseWriter :: response_writer
  headerWritten :: bool

definition WriteHeader :: "trackingResponseWriter \<Rightarrow> int \<Rightarrow> logger \<Rightarrow> trackingResponseWriter \<times> logger" where
  "WriteHeader w statusCode lg =
     (if headerWritten w then (w, lg @ [SkippedDuplicateWriteHeader statusCode])
      else (let w1 = w\<lparr>headerWritten := True\<rparr>
            in (w1\<lparr>ResponseWriter := rw_WriteHeader (ResponseWriter w1) statusCode\<rparr>, lg)))"

definition Write :: "trackingResponseWriter \<Rightarrow> string \<Rightarrow> (int \<times> error option) \<times> trackingResponseWriter" where
  "Write w data =
     (let w1 = w\<lparr>headerWritten := True\<rparr>;
          (res, u) = rw_Write (ResponseWriter w1) data
      in (res, w1\<lparr>ResponseWriter := u\<rparr>))"

definition Unwrap :: "trackingResponseWriter \<Rightarrow> response_writer" where
  "Unwrap w = ResponseWriter w"

text \<open>
  The composite literal \<open>&trackingResponseWriter{ResponseWriter: w}\<close>: the flag has
  Go's zero value.
\<close>

definition new_trackingResponseWriter :: "response_writer \<Rightarrow> trackingResponseWriter" where
  "new_trackingResponseWriter w = \<lparr>ResponseWriter = w, headerWritten = False\<rparr>"

subsection \<open>Values of the interface type\<close>

text \<open>
  A value of type \<open>http.ResponseWriter\<close> is either a \<open>*trackingResponseWriter\<close> or
  some other writer; the type assertion \<open>w.(*trackingResponseWriter)\<close> tells them
  apart. \<open>Header\<close> is promoted from the embedded writer.
\<close>

datatype writer = Plain response_writer | Tracking trackingResponseWriter

fun call_Header :: "writer \<Rightarrow> (header \<Rightarrow> header) \<Rightarrow> writer" where
  "call_Header (Plain u) f = Plain (rw_Header u f)"
| "call_Header (Tracking t) f = Tracking (t\<lparr>ResponseWriter := rw_Header (ResponseWriter t) f\<rparr>)"

fun call_WriteHeader :: "writer \<Rightarrow> int \<Rightarrow> logger \<Rightarrow> writer \<times> logger" where
  "call_WriteHeader (Plain u) statusCode lg = (Plain (rw_WriteHeader u statusCode), lg)"
| "call_WriteHeader (Tracking t) statusCode lg =
     (case WriteHeader t statusCode lg of (t', lg') \<Rightarrow> (Tracking t', lg'))"

fun call_Write :: "writer \<Rightarrow> string \<Rightarrow> (int \<times> error option) \<times> writer" where
  "call_Write (Plain u) data = (case rw_Write u data of (res, u') \<Rightarrow> (res, Plain u'))"
| "call_Write (Tracking t) data = (case Write t data of (res, t') \<Rightarrow> (res, Tracking t'))"

fun call_Unwrap :: "writer \<Rightarrow> response_writer option" where
  "call_Unwrap (Plain u) = None"
| "call_Unwrap (Tracking t) = Some (Unwrap t)"

text \<open>\<open>tw, ok := w.(*trackingResponseWriter); ok && tw.headerWritten\<close>\<close>

fun tracking_headerWritten :: "writer \<Rightarrow> bool" where
  "tracking_headerWritten (Plain u) = False"
| "tracking_headerWritten (Tracking t) = headerWritten t"

text \<open>The writer at the bottom: what the HTTP server handed in.\<close>

fun underlying :: "writer \<Rightarrow> response_writer" where
  "underlying (Plain u) = u"
| "underlying (Tracking t) = ResponseWriter t"

subsection \<open>The two standard-library calls\<close>

text \<open>
  \<open>http.Error(w, error, code)\<close> deletes \<open>Content-Length\<close>, sets the content type to
  plain text and \<open>X-Content-Type-Options\<close> to \<open>nosniff\<close>, calls \<open>w.WriteHeader(code)\<close>
  and prints the message with \<open>fmt.Fprintln\<close>: one \<open>Write\<close> of the message and a
  newline, whose result is dropped.
\<close>

definition http_Error :: "writer \<Rightarrow> string \<Rightarrow> int \<Rightarrow> logger \<Rightarrow> writer \<times> logger" where
  "http_Error w msg code lg =
     (let w1 = call_Header w (Header_Del ''Content-Length'');
          w2 = call_Header w1 (Header_Set ''Content-Type'' ''text/plain; charset=utf-8'');
          w3 = call_Header w2 (Header_Set ''X-Content-Type-Options'' ''nosniff'');
          (w4, lg4) = call_WriteHeader w3 code lg;
          (res, w5) = call_Write w4 (msg @ [CHR 0x0A])
      in (w5, lg4))"

text \<open>
  \<open>json.NewEncoder(w).Encode(i)\<close> serialises the value first; a value that cannot be
  serialised gives the error and nothing is written. Otherwise the text is sent with
  one \<open>w.Write\<close>, whose error (if any) is returned. The serialiser is a parameter
  \<open>enc\<close>: the text the encoder emits for a value (Go's encoder ends it with a
  newline, which is part of that text), or the error it fails with.
\<close>

definition json_Encode :: "('v \<Rightarrow> error + string) \<Rightarrow> writer \<Rightarrow> 'v \<Rightarrow> error option \<times> writer" where
  "json_Encode enc w v =
     (case enc v of
        Inl e \<Rightarrow> (Some e, w)
      | Inr b \<Rightarrow> (case call_Write w b of ((n, err), w') \<Rightarrow> (err, w')))"

subsection \<open>EncodeJSONResponse\<close>

text \<open>The value \<open>i\<close> is \<open>None\<close> for Go's \<open>nil\<close>.\<close>

definition EncodeJSONResponse ::
  "('v \<Rightarrow> error + string) \<Rightarrow> 'v option \<Rightarrow> int \<Rightarrow> writer \<Rightarrow> logger \<Rightarrow> writer \<times> logger" where
  "EncodeJSONResponse enc i status w lg =
     (let w1 = call_Header w (Header_Set ''Content-Type'' ''application/json; charset=UTF-8'');
          (w2, lg2) = call_WriteHeader w1 status lg
      in case i of
           None \<Rightarrow> (w2, lg2)
         | Some v \<Rightarrow>
             (case json_Encode enc w2 v of
                (None, w3) \<Rightarrow> (w3, lg2)
              | (Some err, w3) \<Rightarrow>
                  if tracking_headerWritten w3
                  then (w3, lg2 @ [EncodeFailedAfterHeaders err])
                  else http_Error w3 (Error_msg err) 500 lg2))"

subsection \<open>Handlers\<close>

text \<open>
  An \<open>errorHandler\<close> is Go code that receives the writer and the request and returns
  an error or \<open>nil\<close>. What it does to the writer it does through the interface, so
  a handler is the tree of its calls: each node is one call on the writer it was
  given, and where a call returns something the handler can branch on, the rest of
  the handler is a function of that result. \<open>Unwrap_call\<close> is the type assertion
  that \<open>http.ResponseController\<close> makes; it yields the wrapped writer when there is
  one.
\<close>

datatype 'v handler =
    Return "error option"
  | Header_call "header \<Rightarrow> header" "'v handler"
  | Header_read "header \<Rightarrow> 'v handler"
  | WriteHeader_call int "'v handler"
  | Write_call string "int \<times> error option \<Rightarrow> 'v handler"
  | EncodeJSONResponse_call "'v option" int "'v handler"
  | Unwrap_call "response_writer option \<Rightarrow> 'v handler"

primrec run :: "('v \<Rightarrow> error + string) \<Rightarrow> 'v handler \<Rightarrow> writer \<Rightarrow> logger \<Rightarrow> error option \<times> writer \<times> logger" where
  "run enc (Return err) = (\<lambda>w lg. (err, w, lg))"
| "run enc (Header_call f k) = (\<lambda>w lg. run enc k (call_Header w f) lg)"
| "run enc (Header_read k) = (\<lambda>w lg. run enc (k (rw_header (underlying w))) w lg)"
| "run enc (WriteHeader_call c k) =
     (\<lambda>w lg. case call_WriteHeader w c lg of (w', lg') \<Rightarrow> run enc k w' lg')"
| "run enc (Write_call d k) =
     (\<lambda>w lg. case call_Write w d of (res, w') \<Rightarrow> run enc (k res) w' lg)"
| "run enc (EncodeJSONResponse_call i st k) =
     (\<lambda>w lg. case EncodeJSONResponse enc i st w lg of (w', lg') \<Rightarrow> run enc k w' lg')"
| "run enc (Unwrap_call k) = (\<lambda>w lg. run enc (k (call_Unwrap w)) w lg)"

subsection \<open>NewErrorHandler and Unimplemented\<close>

text \<open>
  The handler that \<open>NewErrorHandler fn\<close> returns, applied to the server's writer
  \<open>w\<close> and the request \<open>r\<close>. The result is the writer \<open>w\<close> as the call leaves it and
  the log.
\<close>

definition NewErrorHandler ::
  "('v \<Rightarrow> error + string) \<Rightarrow> ('r \<Rightarrow> 'v handler) \<Rightarrow> response_writer \<Rightarrow> 'r \<Rightarrow> logger
     \<Rightarrow> response_writer \<times> logger" where
  "NewErrorHandler enc fn w r lg =
     (let tw = Tracking (new_trackingResponseWriter w);
          (err, tw', lg') = run enc (fn r) tw lg
      in case err of
           None \<Rightarrow> (underlying tw', lg')
         | Some e \<Rightarrow>
             if tracking_headerWritten tw'
             then (underlying tw', lg' @ [ErrorAfterResponseStarted e])
             else (case e of
                     StatusError m c \<Rightarrow>
                       (case http_Error tw' m c lg' of (s, l) \<Rightarrow> (underlying s, l))
                   | GenericError m \<Rightarrow>
                       (case http_Error tw' m 500 lg' of (s, l) \<Rightarrow> (underlying s, l))))"

definition Unimplemented :: "writer \<Rightarrow> 'r \<Rightarrow> logger \<Rightarrow> writer \<times> logger" where
  "Unimplemented rw req lg = call_WriteHeader rw 501 lg"

subsection \<open>What a handler can do to a tracking writer\<close>

text \<open>
  \<open>tracks t w'\<close> relates a tracking writer \<open>t\<close> to a later state \<open>w'\<close> of it: \<open>w'\<close>
  is still a tracking writer, the calls that reached the underlying writer only
  grew, the flag is set exactly if it was set before or a call was forwarded, and
  among the forwarded calls there is no status when the flag was set and at most
  one otherwise.
\<close>

definition tracks :: "trackingResponseWriter \<Rightarrow> writer \<Rightarrow> bool" where
  "tracks t w' = (\<exists>t' ex. w' = Tracking t'
      \<and> rw_calls (ResponseWriter t') = rw_calls (ResponseWriter t) @ ex
      \<and> headerWritten t' = (headerWritten t \<or> ex \<noteq> [])
      \<and> length (status_calls ex) \<le> (if headerWritten t then 0 else 1))"

subsection \<open>Example inputs\<close>

text \<open>
  A value type with one value that serialises (a text, written as a JSON string
  and a newline) and one that does not (a channel), a writer whose writes succeed,
  a writer whose writes fail, and four handlers.
\<close>

datatype example_value = Text string | Chan

fun example_enc :: "example_value \<Rightarrow> error + string" where
  "example_enc (Text s) = Inr (CHR 0x22 # s @ [CHR 0x22, CHR 0x0A])"
| "example_enc Chan = Inl (GenericError ''json: unsupported type: chan int'')"

definition example_writer :: response_writer where
  "example_writer =
     \<lparr>rw_header = Map.empty, rw_calls = [], rw_header_at = [],
      rw_on_write = (\<lambda>cs d. (int (length d), None))\<rparr>"

definition broken_writer :: response_writer where
  "broken_writer =
     \<lparr>rw_header = Map.empty, rw_calls = [], rw_header_at = [],
      rw_on_write = (\<lambda>cs d. (0, Some (GenericError ''write: broken pipe'')))\<rparr>"


definition streaming_handler :: "unit \<Rightarrow> example_value handler" where
  "streaming_handler r =
     WriteHeader_call 200 (Write_call ''data: 1'' (\<lambda>res. Return (Some (GenericError ''boom''))))"

definition eager_handler :: "unit \<Rightarrow> example_value handler" where
  "eager_handler r =
     WriteHeader_call 200
       (WriteHeader_call 500
          (EncodeJSONResponse_call (Some Chan) 201
             (Unwrap_call (\<lambda>u. Return (Some (StatusError ''gone'' 410))))))"

definition body_only_handler :: "unit \<Rightarrow> example_value handler" where
  "body_only_handler r = Write_call ''data: 1'' (\<lambda>res. Return (snd res))"


section \<open>Properties\<close>

subsection \<open>The invariant of a tracking writer\<close>

lemma tracks_refl: "tracks t (Tracking t)"
  by (simp add: tracks_def status_calls_def)

lemma tracks_trans: "tracks t (Tracking t1) \<Longrightarrow> tracks t1 w2 \<Longrightarrow> tracks t w2"
  unfolding tracks_def status_calls_def
  by (auto split: if_splits)

lemma tracks_Header: "tracks t (call_Header (Tracking t) f)"
  by (simp add: tracks_def status_calls_def rw_Header_def)

lemma tracks_WriteHeader: "call_WriteHeader (Tracking t) c lg = (w', lg') \<Longrightarrow> tracks t w'"
  by (auto simp: tracks_def status_calls_def WriteHeader_def rw_WriteHeader_def Let_def split: if_splits)

lemma tracks_Write: "call_Write (Tracking t) d = (res, w') \<Longrightarrow> tracks t w'"
  by (auto simp: tracks_def status_calls_def Write_def rw_Write_def Let_def split: if_splits)

lemma tracksE: "tracks t w' \<Longrightarrow> \<exists>t'. w' = Tracking t'"
  by (auto simp: tracks_def)

lemma call_Header_Tracking: "\<exists>t1. call_Header (Tracking t) f = Tracking t1 \<and> tracks t (Tracking t1)"
  using tracks_Header[of t f] by simp

lemma tracks_http_Error:
  assumes "http_Error (Tracking t) m c lg = (w', lg')"
  shows "tracks t w'"
proof -
  obtain t1 where t1: "call_Header (Tracking t) (Header_Del ''Content-Length'') = Tracking t1"
    and r1: "tracks t (Tracking t1)"
    using call_Header_Tracking by blast
  obtain t2 where t2: "call_Header (Tracking t1) (Header_Set ''Content-Type'' ''text/plain; charset=utf-8'') = Tracking t2"
    and r2: "tracks t1 (Tracking t2)"
    using call_Header_Tracking by blast
  obtain t3 where t3: "call_Header (Tracking t2) (Header_Set ''X-Content-Type-Options'' ''nosniff'') = Tracking t3"
    and r3: "tracks t2 (Tracking t3)"
    using call_Header_Tracking by blast
  obtain w4 lg4 where w4: "call_WriteHeader (Tracking t3) c lg = (w4, lg4)"
    by (cases "call_WriteHeader (Tracking t3) c lg")
  from tracks_WriteHeader[OF w4] have r4: "tracks t3 w4" .
  then obtain t4 where t4: "w4 = Tracking t4" using tracksE by blast
  obtain res w5 where w5: "call_Write (Tracking t4) (m @ [CHR 0x0A]) = (res, w5)"
    by (cases "call_Write (Tracking t4) (m @ [CHR 0x0A])")
  from tracks_Write[OF w5] have r5: "tracks t4 w5" .
  have "w' = w5"
    using assms unfolding http_Error_def Let_def t1 t2 t3 w4 t4 w5 prod.case by simp
  moreover have "tracks t w5"
    using r1 r2 r3 r4 r5 t4 tracks_trans by blast
  ultimately show ?thesis by simp
qed

lemma tracks_json_Encode: "tracks t w'" if "json_Encode enc (Tracking t) v = (e, w')"
proof (cases "enc v")
  case (Inl a)
  then show ?thesis using that tracks_refl[of t] by (auto simp: json_Encode_def)
next
  case (Inr b)
  obtain res w1 where w1: "call_Write (Tracking t) b = (res, w1)"
    by (cases "call_Write (Tracking t) b")
  then have "w' = w1" using that Inr unfolding json_Encode_def by (simp split: prod.splits)
  then show ?thesis using tracks_Write[OF w1] by simp
qed

lemma tracks_EncodeJSONResponse:
  assumes "EncodeJSONResponse enc i st (Tracking t) lg = (w', lg')"
  shows "tracks t w'"
proof -
  obtain t1 where t1: "call_Header (Tracking t) (Header_Set ''Content-Type'' ''application/json; charset=UTF-8'') = Tracking t1"
    and r1: "tracks t (Tracking t1)"
    using call_Header_Tracking by blast
  obtain w2 lg2 where w2: "call_WriteHeader (Tracking t1) st lg = (w2, lg2)"
    by (cases "call_WriteHeader (Tracking t1) st lg")
  from tracks_WriteHeader[OF w2] have r2: "tracks t1 w2" .
  then obtain t2 where t2: "w2 = Tracking t2" using tracksE by blast
  have r12: "tracks t (Tracking t2)" using r1 r2 t2 tracks_trans by blast
  show ?thesis
  proof (cases i)
    case None
    then have "w' = w2" using assms unfolding EncodeJSONResponse_def Let_def t1 w2 prod.case by simp
    then show ?thesis using r12 t2 by simp
  next
    case (Some v)
    obtain e w3 where w3: "json_Encode enc (Tracking t2) v = (e, w3)"
      by (cases "json_Encode enc (Tracking t2) v")
    from tracks_json_Encode[OF w3] have r3: "tracks t2 w3" .
    then obtain t3 where t3: "w3 = Tracking t3" using tracksE by blast
    have r13: "tracks t (Tracking t3)" using r12 r3 t3 tracks_trans by blast
    show ?thesis
    proof (cases e)
      case None
      then have "w' = w3" using assms \<open>i = Some v\<close> w3 unfolding EncodeJSONResponse_def Let_def t1 w2 t2 prod.case option.case by simp
      then show ?thesis using r13 t3 by simp
    next
      case (Some err)
      show ?thesis
      proof (cases "headerWritten t3")
        case True
        then have "w' = w3" using assms \<open>i = Some v\<close> Some w3 t3
          unfolding EncodeJSONResponse_def Let_def t1 w2 t2 prod.case option.case by simp
        then show ?thesis using r13 t3 by simp
      next
        case False
        then have "http_Error (Tracking t3) (Error_msg err) 500 lg2 = (w', lg')"
          using assms \<open>i = Some v\<close> Some w3 t3
          unfolding EncodeJSONResponse_def Let_def t1 w2 t2 prod.case option.case by simp
        from tracks_http_Error[OF this] show ?thesis using r13 tracks_trans by blast
      qed
    qed
  qed
qed

lemma tracks_run: "run enc p (Tracking t) lg = (e, w', lg') \<Longrightarrow> tracks t w'"
proof (induction p arbitrary: t lg)
  case (Return x)
  then show ?case using tracks_refl[of t] by auto
next
  case (Header_call f k)
  then show ?case using call_Header_Tracking[of t f] tracks_trans by fastforce
next
  case (Header_read k)
  from Header_read.prems
  have "run enc (k (rw_header (ResponseWriter t))) (Tracking t) lg = (e, w', lg')" by simp
  from Header_read.IH[OF rangeI this] show ?case .
next
  case (WriteHeader_call c k)
  obtain w1 lg1 where w1: "call_WriteHeader (Tracking t) c lg = (w1, lg1)"
    by (cases "call_WriteHeader (Tracking t) c lg")
  from tracks_WriteHeader[OF w1] have r1: "tracks t w1" .
  then obtain t1 where t1: "w1 = Tracking t1" using tracksE by blast
  have "run enc k (Tracking t1) lg1 = (e, w', lg')"
    using WriteHeader_call.prems w1 t1 by simp
  from WriteHeader_call.IH[OF this] show ?case using r1 t1 tracks_trans by blast
next
  case (Write_call d k)
  obtain res w1 where w1: "call_Write (Tracking t) d = (res, w1)"
    by (cases "call_Write (Tracking t) d")
  from tracks_Write[OF w1] have r1: "tracks t w1" .
  then obtain t1 where t1: "w1 = Tracking t1" using tracksE by blast
  have "run enc (k res) (Tracking t1) lg = (e, w', lg')"
    using Write_call.prems w1 t1 by simp
  from Write_call.IH[OF _ this] show ?case using r1 t1 tracks_trans by blast
next
  case (EncodeJSONResponse_call i st k)
  obtain w1 lg1 where w1: "EncodeJSONResponse enc i st (Tracking t) lg = (w1, lg1)"
    by (cases "EncodeJSONResponse enc i st (Tracking t) lg")
  from tracks_EncodeJSONResponse[OF w1] have r1: "tracks t w1" .
  then obtain t1 where t1: "w1 = Tracking t1" using tracksE by blast
  have "run enc k (Tracking t1) lg1 = (e, w', lg')"
    using EncodeJSONResponse_call.prems w1 t1 by simp
  from EncodeJSONResponse_call.IH[OF this] show ?case using r1 t1 tracks_trans by blast
next
  case (Unwrap_call k)
  from Unwrap_call.prems
  have "run enc (k (Some (Unwrap t))) (Tracking t) lg = (e, w', lg')" by simp
  from Unwrap_call.IH[OF rangeI this] show ?case .
qed

lemma tracks_underlying:
  "tracks t w' \<Longrightarrow> \<exists>ex. rw_calls (underlying w') = rw_calls (ResponseWriter t) @ ex
      \<and> tracking_headerWritten w' = (headerWritten t \<or> ex \<noteq> [])
      \<and> length (status_calls ex) \<le> (if headerWritten t then 0 else 1)"
  by (auto simp: tracks_def)


lemma NewErrorHandler_tracks:
  "\<exists>s. fst (NewErrorHandler enc fn w r lg) = underlying s \<and> tracks (new_trackingResponseWriter w) s"
proof -
  obtain err tw' lg' where run: "run enc (fn r) (Tracking (new_trackingResponseWriter w)) lg = (err, tw', lg')"
    by (cases "run enc (fn r) (Tracking (new_trackingResponseWriter w)) lg")
  from tracks_run[OF run] have r1: "tracks (new_trackingResponseWriter w) tw'" .
  then obtain t' where t': "tw' = Tracking t'" using tracksE by blast
  show ?thesis
  proof (cases err)
    case None
    then have "fst (NewErrorHandler enc fn w r lg) = underlying tw'"
      unfolding NewErrorHandler_def Let_def run prod.case by simp
    then show ?thesis using r1 by blast
  next
    case (Some e)
    show ?thesis
    proof (cases "tracking_headerWritten tw'")
      case True
      then have "fst (NewErrorHandler enc fn w r lg) = underlying tw'"
        unfolding NewErrorHandler_def Let_def run prod.case Some by simp
      then show ?thesis using r1 by blast
    next
      case False
      define code where "code = (case e of StatusError m c \<Rightarrow> c | GenericError m \<Rightarrow> 500)"
      obtain s l where s: "http_Error (Tracking t') (Error_msg e) code lg' = (s, l)"
        by (cases "http_Error (Tracking t') (Error_msg e) code lg'")
      from tracks_http_Error[OF s] have "tracks t' s" .
      then have "tracks (new_trackingResponseWriter w) s" using r1 t' tracks_trans by blast
      moreover have "fst (NewErrorHandler enc fn w r lg) = underlying s"
        using False s unfolding NewErrorHandler_def Let_def run prod.case Some t' code_def
        by (cases e) simp_all
      ultimately show ?thesis by blast
    qed
  qed
qed

lemma call_WriteHeader_Tracking_hw:
  "call_WriteHeader (Tracking t) c lg = (w2, lg2) \<Longrightarrow> tracking_headerWritten w2"
  by (auto simp: WriteHeader_def Let_def split: if_splits)

lemma json_Encode_keeps_hw:
  "json_Encode enc w v = (e, w') \<Longrightarrow> tracking_headerWritten w \<Longrightarrow> tracking_headerWritten w'"
  by (cases w) (auto simp: json_Encode_def Write_def split: sum.splits prod.splits)

subsection \<open>The claims\<close>

text \<open>
  Claim C1. Whatever a handler does through the tracking writer that
  \<open>NewErrorHandler\<close> creates for a request (status writes, body writes, header
  changes, \<open>EncodeJSONResponse\<close>, \<open>Unwrap\<close>), and whether or not the wrapper then
  takes its error path, the calls that reach the underlying writer during the
  request contain at most one \<open>WriteHeader\<close>.
\<close>

theorem status_forwarded_at_most_once:
  "\<exists>ex. rw_calls (fst (NewErrorHandler enc fn w r lg)) = rw_calls w @ ex
        \<and> length (status_calls ex) \<le> 1"
proof -
  obtain s where s: "fst (NewErrorHandler enc fn w r lg) = underlying s"
    and r: "tracks (new_trackingResponseWriter w) s"
    using NewErrorHandler_tracks[of enc fn w r lg] by blast
  from tracks_underlying[OF r] show ?thesis
    by (auto simp: s new_trackingResponseWriter_def)
qed

text \<open>
  The handler that sets the status twice, encodes a value that does not
  serialise and fails: one status reaches the example writer.
\<close>

theorem status_forwarded_at_most_once_witness:
  "\<exists>ex. rw_calls (fst (NewErrorHandler example_enc eager_handler example_writer () []))
          = rw_calls example_writer @ ex \<and> length (status_calls ex) \<le> 1"
  using status_forwarded_at_most_once [of example_enc eager_handler example_writer "()" "[]"] .



text \<open>
  Claim C3. A handler that has forwarded a status or a body to the underlying
  writer and then returns an error, of either kind, makes the wrapper write nothing:
  the underlying writer is left exactly as the handler left it, and the error is
  logged.
\<close>

theorem error_after_output_writes_nothing:
  assumes "run enc (fn r) (Tracking (new_trackingResponseWriter w)) lg = (Some e, tw', lg')"
    and "rw_calls (underlying tw') \<noteq> rw_calls w"
  shows "NewErrorHandler enc fn w r lg = (underlying tw', lg' @ [ErrorAfterResponseStarted e])"
proof -
  from tracks_underlying[OF tracks_run[OF assms(1)]] assms(2)
  have "tracking_headerWritten tw'"
    by (auto simp: new_trackingResponseWriter_def)
  then show ?thesis
    unfolding NewErrorHandler_def Let_def assms(1) prod.case by simp
qed

text \<open>
  The handler that streams a status and a chunk and then fails with \<open>boom\<close>.
\<close>

theorem error_after_output_writes_nothing_witness:
  "run example_enc (streaming_handler ()) (Tracking (new_trackingResponseWriter example_writer)) []
     = (Some (GenericError ''boom''),
        Tracking \<lparr>ResponseWriter = example_writer\<lparr>rw_calls := [WriteHeaderCall 200, WriteCall ''data: 1''],
                      rw_header_at := [Map.empty, Map.empty]\<rparr>,
                  headerWritten = True\<rparr>, [])
   \<and> NewErrorHandler example_enc streaming_handler example_writer () []
       = (example_writer\<lparr>rw_calls := [WriteHeaderCall 200, WriteCall ''data: 1''],
                      rw_header_at := [Map.empty, Map.empty]\<rparr>,
          [ErrorAfterResponseStarted (GenericError ''boom'')])"
proof -
  have h1: "run example_enc (streaming_handler ()) (Tracking (new_trackingResponseWriter example_writer)) []
     = (Some (GenericError ''boom''),
        Tracking \<lparr>ResponseWriter = example_writer\<lparr>rw_calls := [WriteHeaderCall 200, WriteCall ''data: 1''],
                      rw_header_at := [Map.empty, Map.empty]\<rparr>,
                  headerWritten = True\<rparr>, [])"
    by (simp add: streaming_handler_def new_trackingResponseWriter_def WriteHeader_def Write_def
          rw_WriteHeader_def rw_Write_def example_writer_def)
  have h2: "rw_calls (underlying (Tracking \<lparr>ResponseWriter = example_writer\<lparr>rw_calls := [WriteHeaderCall 200, WriteCall ''data: 1''],
                      rw_header_at := [Map.empty, Map.empty]\<rparr>,
                  headerWritten = True\<rparr>)) \<noteq> rw_calls example_writer"
    by (simp add: example_writer_def)
  from error_after_output_writes_nothing [where fn = streaming_handler and r = "()", OF h1 h2] h1 show ?thesis
    by simp
qed

text \<open>
  Claim C4. On a fresh tracking writer \<open>WriteHeader S1\<close> forwards exactly
  \<open>S1\<close> to the underlying writer and sets \<open>headerWritten\<close>; a following
  \<open>WriteHeader S2\<close> changes nothing in the writer and only logs the skipped
  status.
\<close>

theorem WriteHeader_forwards_first_only:
  "WriteHeader (new_trackingResponseWriter u) S1 lg
     = (\<lparr>ResponseWriter = rw_WriteHeader u S1, headerWritten = True\<rparr>, lg)
   \<and> rw_calls (rw_WriteHeader u S1) = rw_calls u @ [WriteHeaderCall S1]
   \<and> WriteHeader \<lparr>ResponseWriter = rw_WriteHeader u S1, headerWritten = True\<rparr> S2 lg'
     = (\<lparr>ResponseWriter = rw_WriteHeader u S1, headerWritten = True\<rparr>, lg' @ [SkippedDuplicateWriteHeader S2])"
  by (simp add: WriteHeader_def new_trackingResponseWriter_def rw_WriteHeader_def)

text \<open>
  Status 200 and then 500 on the example writer.
\<close>

theorem WriteHeader_forwards_first_only_witness:
  "WriteHeader (new_trackingResponseWriter example_writer) 200 []
     = (\<lparr>ResponseWriter = rw_WriteHeader example_writer 200, headerWritten = True\<rparr>, [])
   \<and> rw_calls (rw_WriteHeader example_writer 200) = rw_calls example_writer @ [WriteHeaderCall 200]
   \<and> WriteHeader \<lparr>ResponseWriter = rw_WriteHeader example_writer 200, headerWritten = True\<rparr> 500 []
     = (\<lparr>ResponseWriter = rw_WriteHeader example_writer 200, headerWritten = True\<rparr>,
        [] @ [SkippedDuplicateWriteHeader 500])"
  using WriteHeader_forwards_first_only [of example_writer 200 "[]" 500 "[]"] .



text \<open>
  Claim C6. For a value that serialises, \<open>EncodeJSONResponse\<close> with status 200
  on a tracking writer, or on a plain writer whose \<open>Write\<close> accepts the text: if
  nothing has been sent through the writer, the underlying writer receives
  \<open>WriteHeader 200\<close> and then one \<open>Write\<close> of the JSON text, and both calls find the
  \<open>Content-Type\<close> header set to \<open>application/json; charset=UTF-8\<close>; if the tracking
  writer's flag is already set, the status 200 is skipped (and logged as skipped)
  and only the body is written, again with that content type in the header map.
\<close>

theorem EncodeJSONResponse_success:
  assumes "enc v = Inr b"
    and "case w of Tracking t \<Rightarrow> True
         | Plain u \<Rightarrow> snd (rw_on_write u (rw_calls u @ [WriteHeaderCall 200]) b) = None"
  shows "(\<not> tracking_headerWritten w \<longrightarrow>
            rw_calls (underlying (fst (EncodeJSONResponse enc (Some v) 200 w lg)))
              = rw_calls (underlying w) @ [WriteHeaderCall 200, WriteCall b]
          \<and> rw_header_at (underlying (fst (EncodeJSONResponse enc (Some v) 200 w lg)))
              = rw_header_at (underlying w)
                @ [(rw_header (underlying w))(''Content-Type'' \<mapsto> [''application/json; charset=UTF-8'']),
                   (rw_header (underlying w))(''Content-Type'' \<mapsto> [''application/json; charset=UTF-8''])])
       \<and> (tracking_headerWritten w \<longrightarrow>
            rw_calls (underlying (fst (EncodeJSONResponse enc (Some v) 200 w lg)))
              = rw_calls (underlying w) @ [WriteCall b]
          \<and> rw_header_at (underlying (fst (EncodeJSONResponse enc (Some v) 200 w lg)))
              = rw_header_at (underlying w)
                @ [(rw_header (underlying w))(''Content-Type'' \<mapsto> [''application/json; charset=UTF-8''])]
          \<and> (\<exists>l. snd (EncodeJSONResponse enc (Some v) 200 w lg) = lg @ SkippedDuplicateWriteHeader 200 # l))
       \<and> rw_header (underlying (fst (EncodeJSONResponse enc (Some v) 200 w lg)))
           = (rw_header (underlying w))(''Content-Type'' \<mapsto> [''application/json; charset=UTF-8''])"
proof (cases w)
  case (Plain u)
  then show ?thesis
    using assms
    by (auto simp: EncodeJSONResponse_def json_Encode_def Let_def rw_Write_def rw_WriteHeader_def
          rw_Header_def Header_Set_def split: prod.splits)
next
  case (Tracking t)
  obtain n err where r: "rw_on_write (ResponseWriter t)
       (rw_calls (ResponseWriter t) @ (if headerWritten t then [] else [WriteHeaderCall 200])) b = (n, err)"
    by (cases "rw_on_write (ResponseWriter t)
       (rw_calls (ResponseWriter t) @ (if headerWritten t then [] else [WriteHeaderCall 200])) b")
  show ?thesis
    using assms(1) r unfolding Tracking
    by (cases err; cases "headerWritten t";
        simp add: EncodeJSONResponse_def json_Encode_def Let_def WriteHeader_def Write_def
          rw_Write_def rw_WriteHeader_def rw_Header_def Header_Set_def)
qed

text \<open>
  The text \<open>hi\<close> on a fresh tracking writer, and on a tracking writer whose flag
  is set.
\<close>

theorem EncodeJSONResponse_success_witness:
  "example_enc (Text ''hi'') = Inr [CHR 0x22, CHR ''h'', CHR ''i'', CHR 0x22, CHR 0x0A]
   \<and> \<not> tracking_headerWritten (Tracking (new_trackingResponseWriter example_writer))
   \<and> rw_calls (underlying (fst (EncodeJSONResponse example_enc (Some (Text ''hi'')) 200
                                 (Tracking (new_trackingResponseWriter example_writer)) [])))
       = [WriteHeaderCall 200, WriteCall [CHR 0x22, CHR ''h'', CHR ''i'', CHR 0x22, CHR 0x0A]]
   \<and> rw_header_at (underlying (fst (EncodeJSONResponse example_enc (Some (Text ''hi'')) 200
                                 (Tracking (new_trackingResponseWriter example_writer)) [])))
       = [[''Content-Type'' \<mapsto> [''application/json; charset=UTF-8'']],
          [''Content-Type'' \<mapsto> [''application/json; charset=UTF-8'']]]
   \<and> tracking_headerWritten (Tracking \<lparr>ResponseWriter = broken_writer, headerWritten = True\<rparr>)
   \<and> rw_calls (underlying (fst (EncodeJSONResponse example_enc (Some (Text ''hi'')) 200
                                 (Tracking \<lparr>ResponseWriter = broken_writer, headerWritten = True\<rparr>) [])))
       = [WriteCall [CHR 0x22, CHR ''h'', CHR ''i'', CHR 0x22, CHR 0x0A]]"
proof -
  let ?w = "Tracking (new_trackingResponseWriter example_writer)"
  let ?s = "Tracking \<lparr>ResponseWriter = broken_writer, headerWritten = True\<rparr>"
  let ?b = "[CHR 0x22, CHR ''h'', CHR ''i'', CHR 0x22, CHR 0x0A]"
  have h1: "example_enc (Text ''hi'') = Inr ?b"
    by simp
  have h2: "case ?w of Tracking t \<Rightarrow> True
         | Plain u \<Rightarrow> snd (rw_on_write u (rw_calls u @ [WriteHeaderCall 200]) ?b) = None"
    by simp
  have h3: "case ?s of Tracking t \<Rightarrow> True
         | Plain u \<Rightarrow> snd (rw_on_write u (rw_calls u @ [WriteHeaderCall 200]) ?b) = None"
    by simp
  have f: "\<not> tracking_headerWritten ?w" and g: "tracking_headerWritten ?s"
    by (simp_all add: new_trackingResponseWriter_def)
  from EncodeJSONResponse_success [where enc = example_enc and v = "Text ''hi''" and lg = "[]", OF h1 h2] f
  have a: "rw_calls (underlying (fst (EncodeJSONResponse example_enc (Some (Text ''hi'')) 200 ?w [])))
              = rw_calls (underlying ?w) @ [WriteHeaderCall 200, WriteCall ?b]
          \<and> rw_header_at (underlying (fst (EncodeJSONResponse example_enc (Some (Text ''hi'')) 200 ?w [])))
              = rw_header_at (underlying ?w)
                @ [(rw_header (underlying ?w))(''Content-Type'' \<mapsto> [''application/json; charset=UTF-8'']),
                   (rw_header (underlying ?w))(''Content-Type'' \<mapsto> [''application/json; charset=UTF-8''])]"
    by blast
  from EncodeJSONResponse_success [where enc = example_enc and v = "Text ''hi''" and lg = "[]", OF h1 h3] g
  have b: "rw_calls (underlying (fst (EncodeJSONResponse example_enc (Some (Text ''hi'')) 200 ?s [])))
              = rw_calls (underlying ?s) @ [WriteCall ?b]"
    by blast
  from a b h1 f g show ?thesis
    by (simp add: new_trackingResponseWriter_def example_writer_def broken_writer_def)
qed

text \<open>
  Without the condition on the flag the status need not be 200: on a tracking
  writer that has forwarded the status 404, the call with status 200 adds the body
  only, and the response keeps 404.
\<close>

theorem EncodeJSONResponse_success_counterexample:
  "example_enc (Text ''hi'') = Inr [CHR 0x22, CHR ''h'', CHR ''i'', CHR 0x22, CHR 0x0A]
   \<and> rw_calls (underlying (fst (EncodeJSONResponse example_enc (Some (Text ''hi'')) 200
         (Tracking (fst (WriteHeader (new_trackingResponseWriter example_writer) 404 []))) [])))
       = [WriteHeaderCall 404, WriteCall [CHR 0x22, CHR ''h'', CHR ''i'', CHR 0x22, CHR 0x0A]]
   \<and> snd (EncodeJSONResponse example_enc (Some (Text ''hi'')) 200
         (Tracking (fst (WriteHeader (new_trackingResponseWriter example_writer) 404 []))) [])
       = [SkippedDuplicateWriteHeader 200]"
  by (simp add: EncodeJSONResponse_def json_Encode_def Let_def WriteHeader_def Write_def
        rw_Write_def rw_WriteHeader_def rw_Header_def Header_Set_def
        new_trackingResponseWriter_def example_writer_def)

text \<open>
  Claim C7. \<open>headerWritten\<close> is false in the tracking writer that the wrapper
  creates, true after every \<open>WriteHeader\<close> and after every \<open>Write\<close>, and over any
  run of a handler (which may also call \<open>Unwrap\<close> and \<open>EncodeJSONResponse\<close>) it is
  true afterwards exactly if it was true before or a call was forwarded to the
  underlying writer; in particular it is never reset.
\<close>

theorem headerWritten_monotone:
  "\<not> headerWritten (new_trackingResponseWriter u)
   \<and> headerWritten (fst (WriteHeader t c lg))
   \<and> headerWritten (snd (Write t d))
   \<and> (\<exists>t'. fst (snd (run enc p (Tracking t) lg)) = Tracking t'
          \<and> headerWritten t' = (headerWritten t \<or> rw_calls (ResponseWriter t') \<noteq> rw_calls (ResponseWriter t)))
   \<and> (headerWritten t \<longrightarrow> tracking_headerWritten (fst (snd (run enc p (Tracking t) lg))))"
proof -
  obtain e w' lg' where run: "run enc p (Tracking t) lg = (e, w', lg')"
    by (cases "run enc p (Tracking t) lg")
  from tracks_run[OF run] have "tracks t w'" .
  then have "\<exists>t'. w' = Tracking t'
          \<and> headerWritten t' = (headerWritten t \<or> rw_calls (ResponseWriter t') \<noteq> rw_calls (ResponseWriter t))"
    by (auto simp: tracks_def)
  then show ?thesis
    by (auto simp: run new_trackingResponseWriter_def WriteHeader_def Write_def split_beta Let_def)
qed

text \<open>
  A tracking writer whose flag is set, under the handler that sets the status
  twice, encodes and unwraps.
\<close>

theorem headerWritten_monotone_witness:
  "headerWritten \<lparr>ResponseWriter = example_writer, headerWritten = True\<rparr>
   \<and> tracking_headerWritten (fst (snd (run example_enc (eager_handler ())
        (Tracking \<lparr>ResponseWriter = example_writer, headerWritten = True\<rparr>) [])))
   \<and> \<not> headerWritten (new_trackingResponseWriter example_writer)
   \<and> headerWritten (fst (WriteHeader \<lparr>ResponseWriter = example_writer, headerWritten = True\<rparr> 200 []))
   \<and> headerWritten (snd (Write \<lparr>ResponseWriter = example_writer, headerWritten = True\<rparr> ''x''))"
  using headerWritten_monotone [of example_writer "\<lparr>ResponseWriter = example_writer, headerWritten = True\<rparr>"
     200 "[]" "''x''" example_enc "eager_handler ()"]
  by simp

text \<open>
  Claim C8. \<open>Write\<close> sets \<open>headerWritten\<close> whatever the state of the tracking
  writer, returns what the underlying writer's \<open>Write\<close> returns, and leaves the
  underlying writer as that \<open>Write\<close> leaves it: with the data appended to the calls
  it received.
\<close>

theorem Write_sets_flag_and_forwards:
  "headerWritten (snd (Write t b))
   \<and> fst (Write t b) = fst (rw_Write (ResponseWriter t) b)
   \<and> ResponseWriter (snd (Write t b)) = snd (rw_Write (ResponseWriter t) b)
   \<and> rw_calls (snd (rw_Write (ResponseWriter t) b)) = rw_calls (ResponseWriter t) @ [WriteCall b]"
  by (simp add: Write_def rw_Write_def)

text \<open>
  A write to the writer whose writes fail.
\<close>

theorem Write_sets_flag_and_forwards_witness:
  "headerWritten (snd (Write (new_trackingResponseWriter broken_writer) ''x''))
   \<and> fst (Write (new_trackingResponseWriter broken_writer) ''x'')
       = fst (rw_Write (ResponseWriter (new_trackingResponseWriter broken_writer)) ''x'')
   \<and> ResponseWriter (snd (Write (new_trackingResponseWriter broken_writer) ''x''))
       = snd (rw_Write (ResponseWriter (new_trackingResponseWriter broken_writer)) ''x'')
   \<and> rw_calls (snd (rw_Write (ResponseWriter (new_trackingResponseWriter broken_writer)) ''x''))
       = rw_calls (ResponseWriter (new_trackingResponseWriter broken_writer)) @ [WriteCall ''x'']"
  using Write_sets_flag_and_forwards [of "new_trackingResponseWriter broken_writer" "''x''"] .

text \<open>
  Claim C9. With a tracking writer, the flag is set once
  \<open>EncodeJSONResponse\<close> has called \<open>WriteHeader\<close>, whatever the flag was before. So
  whenever the encoder then fails (the value does not serialise, or the write
  fails), the function takes the branch that only logs: its result is the writer
  as the encoder left it and the log with the failure appended, not the result of
  \<open>http.Error\<close>.
\<close>

theorem EncodeJSONResponse_tracking_never_falls_back:
  assumes "call_WriteHeader (call_Header (Tracking t) (Header_Set ''Content-Type'' ''application/json; charset=UTF-8'')) status lg
           = (w2, lg2)"
    and "json_Encode enc w2 v = (Some err, w3)"
  shows "tracking_headerWritten w2
       \<and> EncodeJSONResponse enc (Some v) status (Tracking t) lg = (w3, lg2 @ [EncodeFailedAfterHeaders err])"
proof -
  have hw2: "tracking_headerWritten w2"
    using assms(1) call_WriteHeader_Tracking_hw by simp
  have hw3: "tracking_headerWritten w3"
    using json_Encode_keeps_hw[OF assms(2) hw2] .
  have "EncodeJSONResponse enc (Some v) status (Tracking t) lg = (w3, lg2 @ [EncodeFailedAfterHeaders err])"
    unfolding EncodeJSONResponse_def Let_def assms prod.case option.case using hw3 by simp
  with hw2 show ?thesis by simp
qed

text \<open>
  A channel as the value on a fresh tracking writer.
\<close>

theorem EncodeJSONResponse_tracking_never_falls_back_witness:
  "EncodeJSONResponse example_enc (Some Chan) 200
       (Tracking \<lparr>ResponseWriter = example_writer, headerWritten = False\<rparr>) []
     = (Tracking \<lparr>ResponseWriter = example_writer
                      \<lparr>rw_header := [''Content-Type'' \<mapsto> [''application/json; charset=UTF-8'']],
                       rw_calls := [WriteHeaderCall 200],
                       rw_header_at := [[''Content-Type'' \<mapsto> [''application/json; charset=UTF-8'']]]\<rparr>,
                    headerWritten = True\<rparr>,
        [EncodeFailedAfterHeaders (GenericError ''json: unsupported type: chan int'')])"
proof -
  let ?w2 = "Tracking \<lparr>ResponseWriter = example_writer
                      \<lparr>rw_header := [''Content-Type'' \<mapsto> [''application/json; charset=UTF-8'']],
                       rw_calls := [WriteHeaderCall 200],
                       rw_header_at := [[''Content-Type'' \<mapsto> [''application/json; charset=UTF-8'']]]\<rparr>,
                    headerWritten = True\<rparr>"
  have h1: "call_WriteHeader (call_Header (Tracking \<lparr>ResponseWriter = example_writer, headerWritten = False\<rparr>)
               (Header_Set ''Content-Type'' ''application/json; charset=UTF-8'')) 200 []
        = (?w2, [])"
    by (simp add: WriteHeader_def rw_WriteHeader_def rw_Header_def Header_Set_def example_writer_def)
  have h2: "json_Encode example_enc ?w2 Chan
        = (Some (GenericError ''json: unsupported type: chan int''), ?w2)"
    by (simp add: json_Encode_def)
  from EncodeJSONResponse_tracking_never_falls_back [OF h1 h2]
  show ?thesis by simp
qed

text \<open>
  Claim C10. \<open>Write\<close> sets \<open>headerWritten\<close> also when the underlying writer's
  \<open>Write\<close> returns an error (with any byte count, zero included). So if a handler
  has attempted a body write, successful or not, and returns an error, the wrapper
  only logs that error and leaves the underlying writer as the handler left it.
\<close>

theorem failed_Write_still_marks_response_started:
  "(rw_on_write (ResponseWriter t) (rw_calls (ResponseWriter t)) d = (n, Some werr) \<longrightarrow>
      fst (Write t d) = (n, Some werr) \<and> headerWritten (snd (Write t d)))
   \<and> (run enc (fn r) (Tracking (new_trackingResponseWriter w)) lg = (Some e, tw', lg')
        \<and> (\<exists>b. WriteCall b \<in> set (drop (length (rw_calls w)) (rw_calls (underlying tw')))) \<longrightarrow>
      NewErrorHandler enc fn w r lg = (underlying tw', lg' @ [ErrorAfterResponseStarted e]))"
proof -
  have a: "rw_on_write (ResponseWriter t) (rw_calls (ResponseWriter t)) d = (n, Some werr) \<longrightarrow>
      fst (Write t d) = (n, Some werr) \<and> headerWritten (snd (Write t d))"
    by (simp add: Write_def rw_Write_def)
  have b: "NewErrorHandler enc fn w r lg = (underlying tw', lg' @ [ErrorAfterResponseStarted e])"
    if run: "run enc (fn r) (Tracking (new_trackingResponseWriter w)) lg = (Some e, tw', lg')"
      and wr: "\<exists>b. WriteCall b \<in> set (drop (length (rw_calls w)) (rw_calls (underlying tw')))"
  proof -
    from tracks_underlying[OF tracks_run[OF run]] wr
    have "tracking_headerWritten tw'"
      by (auto simp: new_trackingResponseWriter_def)
    then show ?thesis
      unfolding NewErrorHandler_def Let_def run prod.case by simp
  qed
  from a b show ?thesis by blast
qed

text \<open>
  The handler whose only call is a body write, on the writer whose writes
  fail: the write's error is what the handler returns.
\<close>

theorem failed_Write_still_marks_response_started_witness:
  "fst (Write (new_trackingResponseWriter broken_writer) ''data: 1'')
      = (0, Some (GenericError ''write: broken pipe''))
   \<and> headerWritten (snd (Write (new_trackingResponseWriter broken_writer) ''data: 1''))
   \<and> NewErrorHandler example_enc body_only_handler broken_writer () []
      = (broken_writer\<lparr>rw_calls := [WriteCall ''data: 1''],
                      rw_header_at := [Map.empty]\<rparr>,
         [ErrorAfterResponseStarted (GenericError ''write: broken pipe'')])"
proof -
  let ?tw = "Tracking \<lparr>ResponseWriter = broken_writer\<lparr>rw_calls := [WriteCall ''data: 1''],
                      rw_header_at := [Map.empty]\<rparr>,
                       headerWritten = True\<rparr>"
  have h0: "rw_on_write (ResponseWriter (new_trackingResponseWriter broken_writer))
              (rw_calls (ResponseWriter (new_trackingResponseWriter broken_writer))) ''data: 1''
            = (0, Some (GenericError ''write: broken pipe''))"
    by (simp add: new_trackingResponseWriter_def broken_writer_def)
  have h1: "run example_enc (body_only_handler ()) (Tracking (new_trackingResponseWriter broken_writer)) []
      = (Some (GenericError ''write: broken pipe''), ?tw, [])"
    by (simp add: body_only_handler_def new_trackingResponseWriter_def Write_def rw_Write_def
          broken_writer_def)
  have h2: "\<exists>b. WriteCall b \<in> set (drop (length (rw_calls broken_writer)) (rw_calls (underlying ?tw)))"
    by (simp add: broken_writer_def)
  from failed_Write_still_marks_response_started
         [where t = "new_trackingResponseWriter broken_writer" and d = "''data: 1''" and n = 0
            and werr = "GenericError ''write: broken pipe''"
            and enc = example_enc and fn = body_only_handler and r = "()" and w = broken_writer
            and lg = "[]" and e = "GenericError ''write: broken pipe''" and tw' = ?tw and lg' = "[]"]
       h0 h1 h2
  show ?thesis by simp
qed

end
